theory Spec2Isabelle
  imports Complex_Main "HOL-Library.Log_Nat" "HOL-Library.Signed_Division"
begin

section \<open>The SE(3) localisation demo of kalmanif\<close>

text \<open>
  The development embeds \<^verbatim>\<open>examples/demo_se3.cpp\<close>: the configuration block, the
  initialisation of the four filters, and the temporal loop. The filters, the system and
  measurement models, the random source and the Lie group live in other files; the
  driver's behaviour towards them is the sequence of calls it makes and the arguments it
  passes, so the embedding computes that sequence.

  Numbers. The payload of the driver (controls, sigmas, covariances, measurements) is
  modelled over the reals: decimal literals stand for themselves and no rounding is
  applied. The loop counter \<^verbatim>\<open>t\<close> is different: its rounded value decides how often the loop
  runs and which iterations update, so it is modelled bit for bit as an IEEE-754 binary64
  number (round to nearest, ties to even).
\<close>

subsection \<open>Vectors and matrices\<close>

type_synonym vec = "real list"
type_synonym mat = "real list list"

definition cwiseProduct :: "vec \<Rightarrow> vec \<Rightarrow> vec" where
  "cwiseProduct a b = map2 (*) a b"

definition vadd :: "vec \<Rightarrow> vec \<Rightarrow> vec" where
  "vadd a b = map2 (+) a b"

definition vscale :: "vec \<Rightarrow> real \<Rightarrow> vec" where
  "vscale a c = map (\<lambda>x. x * c) a"

definition vdiv :: "vec \<Rightarrow> real \<Rightarrow> vec" where
  "vdiv a c = map (\<lambda>x. x / c) a"

definition mscale :: "mat \<Rightarrow> real \<Rightarrow> mat" where
  "mscale M c = map (\<lambda>row. vscale row c) M"

definition matvec :: "mat \<Rightarrow> vec \<Rightarrow> vec" where
  "matvec M v = map (\<lambda>row. sum_list (cwiseProduct row v)) M"

text \<open>\<^verbatim>\<open>v.matrix().asDiagonal()\<close>: the square matrix with \<open>v\<close> on the diagonal, as rows.\<close>

fun asDiagonal :: "vec \<Rightarrow> mat" where
  "asDiagonal [] = []"
| "asDiagonal (x # xs) = (x # replicate (length xs) 0) # map ((#) 0) (asDiagonal xs)"

definition Identity3 :: mat where
  "Identity3 = asDiagonal [1, 1, 1]"

text \<open>
  Block assignment on a 6x6 matrix (6 is the dimension of the tangent space of SE(3)):
  \<^verbatim>\<open>M.topLeftCorner<3,3>() = B\<close> and \<^verbatim>\<open>M.bottomRightCorner<3,3>() = B\<close>. Entries outside the
  block keep the value they have in \<open>M\<close>.
\<close>

definition topLeftCorner33_assign :: "mat \<Rightarrow> mat \<Rightarrow> mat" where
  "topLeftCorner33_assign M B =
     map (\<lambda>i. map (\<lambda>j. if i < 3 \<and> j < 3 then B ! i ! j else M ! i ! j) [0..<6]) [0..<6]"

definition bottomRightCorner33_assign :: "mat \<Rightarrow> mat \<Rightarrow> mat" where
  "bottomRightCorner33_assign M B =
     map (\<lambda>i. map (\<lambda>j. if 3 \<le> i \<and> 3 \<le> j then B ! (i - 3) ! (j - 3) else M ! i ! j) [0..<6])
       [0..<6]"

subsection \<open>The loop counter as a binary64 number\<close>

text \<open>
  Every value the counter \<^verbatim>\<open>t\<close> takes is a non-negative multiple of \<open>2\<^sup>-\<^sup>5\<^sup>9\<close> (the unit
  in the last place of the double nearest to 0.01), so a counter value \<open>d\<close> is held as the
  natural number \<open>d * 2\<^sup>5\<^sup>9\<close>. \<open>rnd53\<close> rounds such a number to 53 significant bits, to
  nearest with ties to even: what binary64 does to the exact result of an addition or a
  multiplication. Results stay far below the overflow threshold, which is not modelled.
\<close>

definition rnd53 :: "nat \<Rightarrow> nat" where
  "rnd53 s = (if s < 2 ^ 53 then s
     else (let g = 2 ^ (floorlog 2 s - 53); q = s div g; r = s mod g in
       (if 2 * r < g then q else if g < 2 * r then q + 1
        else if even q then q else q + 1) * g))"

text \<open>\<^verbatim>\<open>constexpr double dt = 0.01\<close>: the double nearest to 1/100, times \<open>2\<^sup>5\<^sup>9\<close>.\<close>

definition dt_d :: nat where
  "dt_d = 5764607523034235"

text \<open>\<^verbatim>\<open>t += dt\<close>, \<^verbatim>\<open>t * 100\<close>, \<^verbatim>\<open>int(...)\<close> (truncation) and the bound \<^verbatim>\<open>350\<close> of \<^verbatim>\<open>t < 350\<close>.\<close>

definition dadd :: "nat \<Rightarrow> nat \<Rightarrow> nat" where
  "dadd a b = rnd53 (a + b)"

definition dmul_int :: "nat \<Rightarrow> nat \<Rightarrow> nat" where
  "dmul_int a n = rnd53 (a * n)"

definition to_int :: "nat \<Rightarrow> int" where
  "to_int a = int (a div 2 ^ 59)"

definition t_limit :: nat where
  "t_limit = 350 * 2 ^ 59"

text \<open>The counter after \<open>n\<close> increments, starting from \<open>T\<close>.\<close>

fun t_iter :: "nat \<Rightarrow> nat \<Rightarrow> nat" where
  "t_iter 0 T = T"
| "t_iter (Suc n) T = dadd (t_iter n T) dt_d"

text \<open>
  \<open>dt_near e\<close> is \<open>dt_d\<close> rounded to the nearest multiple of \<open>2\<^sup>e\<close>: the amount by which an
  increment really advances a counter whose unit in the last place is \<open>2\<^sup>e\<close>.
\<close>

definition dt_near :: "nat \<Rightarrow> nat" where
  "dt_near e =
     (if 2 * (dt_d mod 2 ^ e) < 2 ^ e then dt_d div 2 ^ e else dt_d div 2 ^ e + 1) * 2 ^ e"

subsection \<open>Configuration (lines 138 to 186 of the driver)\<close>

definition dt :: real where
  "dt = 0.01"

definition sqrtdt :: real where
  "sqrtdt = sqrt dt"

definition var_gyro :: real where
  "var_gyro = 1 / 10 ^ 4"

definition var_odometry :: real where
  "var_odometry = 9 / 10 ^ 6"

definition gps_freq :: int where
  "gps_freq = 10"

definition landmark_freq :: int where
  "landmark_freq = 50"

definition u_nom :: vec where
  "u_nom = [0.1, 0.0, 0.05, 0.0, 0, 0.05]"

text \<open>\<^verbatim>\<open>u_sigmas.head<3>().setConstant(...)\<close> and \<^verbatim>\<open>u_sigmas.tail<3>().setConstant(...)\<close>.\<close>

definition u_sigmas :: vec where
  "u_sigmas = replicate 3 (sqrt var_odometry) @ replicate 3 (sqrt var_gyro)"

text \<open>\<^verbatim>\<open>U = (u_sigmas * u_sigmas * 1./dt).matrix().asDiagonal()\<close>, the products coefficient-wise.\<close>

definition U :: mat where
  "U = asDiagonal (vdiv (vscale (cwiseProduct u_sigmas u_sigmas) 1) dt)"

definition y_sigmas :: vec where
  "y_sigmas = [0.01, 0.01, 0.01]"

definition R :: mat where
  "R = asDiagonal (cwiseProduct y_sigmas y_sigmas)"

text \<open>
  A measurement model is a landmark model (beacon position and noise covariance) or the
  GPS model (noise covariance).
\<close>

datatype measmodel = Landmark3D vec mat | DummyGPS mat

definition measurement_models :: "measmodel list" where
  "measurement_models =
     [Landmark3D [2.0, 0.0, 0.0] R,
      Landmark3D [3.0, -1.0, -1.0] R,
      Landmark3D [2.0, -1.0, 1.0] R,
      Landmark3D [2.0, 1.0, 1.0] R,
      Landmark3D [2.0, 1.0, -1.0] R]"

definition y_gps_sigmas :: vec where
  "y_gps_sigmas = [sqrt (6 / 10 ^ 3), sqrt (6 / 10 ^ 3), sqrt (6 / 10 ^ 3)]"

definition R_gps :: mat where
  "R_gps = asDiagonal (cwiseProduct y_sigmas y_sigmas)"

text \<open>\<^verbatim>\<open>int(100./landmark_freq)\<close> and \<^verbatim>\<open>int(100./gps_freq)\<close>: conversion to int truncates.\<close>

definition c_int :: "real \<Rightarrow> int" where
  "c_int x = (if 0 \<le> x then \<lfloor>x\<rfloor> else \<lceil>x\<rceil>)"

definition landmark_period :: int where
  "landmark_period = c_int (100 / of_int landmark_freq)"

definition gps_period :: int where
  "gps_period = c_int (100 / of_int gps_freq)"

subsection \<open>The collaborators of the driver\<close>

text \<open>The system model object: it holds the process-noise covariance.\<close>

record sysmodel =
  sys_cov :: mat

definition setCovariance :: "mat \<Rightarrow> sysmodel \<Rightarrow> sysmodel" where
  "setCovariance Q f = f\<lparr>sys_cov := Q\<rparr>"

text \<open>
  What the driver takes from outside, as parameters: the Lie group (\<^verbatim>\<open>State::Identity()\<close>
  and \<^verbatim>\<open>X + Tangent(v)\<close>, that is \<open>X \<cdot> Exp v\<close>), the evaluation of a measurement model at a
  pose, the random source (\<^verbatim>\<open>randn(sigmas)\<close> and the unit draw \<^verbatim>\<open>randn<Array6d>()\<close>, both
  advancing a generator state), Eigen's \<^verbatim>\<open>cwiseSqrt\<close>, and what default construction leaves
  in a \<^verbatim>\<open>Covariance<State>\<close> and in a \<^verbatim>\<open>SystemModel\<close>.
\<close>

record ('x, 'g) extern =
  Identity :: 'x
  rplus :: "'x \<Rightarrow> vec \<Rightarrow> 'x"
  h_eval :: "measmodel \<Rightarrow> 'x \<Rightarrow> vec"
  randn :: "vec \<Rightarrow> 'g \<Rightarrow> vec \<times> 'g"
  randn0 :: "'g \<Rightarrow> vec \<times> 'g"
  cwiseSqrt :: "mat \<Rightarrow> mat"
  default_cov :: mat
  default_model :: sysmodel

text \<open>
  Modelled from the spec: \<^verbatim>\<open>LieSystemModel::operator()\<close>, whose source is not part of the
  driver file. The spec's contract: given \<open>X\<close> and the integrated control \<open>u\<close>, produce
  \<open>X' = X \<cdot> Exp(u)\<close>; the model is pure, it performs no state mutation. The call returns
  the new pose together with the model object as the call leaves it.
\<close>

definition system_model_call ::
  "('x, 'g) extern \<Rightarrow> sysmodel \<Rightarrow> 'x \<Rightarrow> vec \<Rightarrow> 'x \<times> sysmodel" where
  "system_model_call ex f X u = (rplus ex X u, f)"

text \<open>
  The calls the driver makes on the filters and on the random source. \<open>Propagate\<close> and
  \<open>Update\<close> carry the model and the vector passed; the optional last argument of
  \<open>Propagate\<close> is the \<^verbatim>\<open>dt\<close> of \<^verbatim>\<open>propagate(system_model, u [, dt])\<close>. \<open>Construct k None\<close> is
  default construction, \<open>Construct k (Some (X, P))\<close> construction from a state and a
  covariance.
\<close>

datatype fkind = EKF | SEKF | IEKF | UKFM

datatype 'x call =
    Randn0
  | Randn vec
  | Construct fkind "('x \<times> mat) option"
  | SetState fkind 'x
  | SetCovariance fkind mat
  | Propagate fkind sysmodel vec "real option"
  | Update fkind measmodel vec
  | GetState fkind
  | GetCovariance fkind

subsection \<open>The temporal loop (lines 213 to 321)\<close>

record ('x, 'g) loop_state =
  t :: nat
  X_simulation :: 'x
  X_unfiltered :: 'x
  system_model :: sysmodel
  gen :: 'g

text \<open>
  Lines 228 to 238: every landmark is measured at the simulated pose and a noise drawn with
  \<^verbatim>\<open>randn(y_sigmas)\<close> is added. The result is the content of \<^verbatim>\<open>measurements\<close>, which the
  loop overwrites at every index before the estimation part reads it.
\<close>

fun simulate_measurements ::
  "('x, 'g) extern \<Rightarrow> 'x \<Rightarrow> measmodel list \<Rightarrow> 'g \<Rightarrow> vec list \<times> 'x call list \<times> 'g" where
  "simulate_measurements ex X [] g = ([], [], g)"
| "simulate_measurements ex X (measurement_model # rest) g =
     (let y = h_eval ex measurement_model X;
          (y_noise, g1) = randn ex y_sigmas g;
          y = vadd y y_noise;
          (ys, cs, g2) = simulate_measurements ex X rest g1
      in (y # ys, Randn y_sigmas # cs, g2))"

text \<open>Lines 244 to 250.\<close>

definition propagate_all :: "sysmodel \<Rightarrow> vec \<Rightarrow> 'x call list" where
  "propagate_all f u_est =
     [Propagate EKF f u_est None,
      Propagate SEKF f u_est None,
      Propagate IEKF f u_est (Some dt),
      Propagate UKFM f u_est None]"

text \<open>Lines 257 to 272: for each index, the model and the stored measurement.\<close>

fun update_landmarks :: "(measmodel \<times> vec) list \<Rightarrow> 'x call list" where
  "update_landmarks [] = []"
| "update_landmarks ((measurement_model, y) # rest) =
     [Update EKF measurement_model y,
      Update SEKF measurement_model y,
      Update IEKF measurement_model y,
      Update UKFM measurement_model y] @ update_landmarks rest"

text \<open>Lines 276 to 293.\<close>

definition update_gps :: "('x, 'g) extern \<Rightarrow> 'x \<Rightarrow> 'g \<Rightarrow> 'x call list \<times> 'g" where
  "update_gps ex X g =
     (let gps_measurement_model = DummyGPS R_gps;
          y_gps = h_eval ex gps_measurement_model X;
          (y_gps_noise, g1) = randn ex y_gps_sigmas g;
          y_gps = vadd y_gps y_gps_noise
      in ([Randn y_gps_sigmas,
           Update EKF gps_measurement_model y_gps,
           Update SEKF gps_measurement_model y_gps,
           Update IEKF gps_measurement_model y_gps,
           Update UKFM gps_measurement_model y_gps], g1))"

text \<open>Lines 298 to 306: the states and covariances read back for the collector.\<close>

definition read_results :: "'x call list" where
  "read_results =
     [GetState EKF, GetState SEKF, GetState IEKF, GetState UKFM,
      GetCovariance EKF, GetCovariance SEKF, GetCovariance IEKF, GetCovariance UKFM]"

text \<open>
  One pass through the loop body. C++ \<^verbatim>\<open>%\<close> on \<^verbatim>\<open>int\<close> is the truncating remainder \<open>smod\<close>.
  Printing, the data collector and the plots are output only and are left out.
\<close>

definition body ::
  "('x, 'g) extern \<Rightarrow> ('x, 'g) loop_state \<Rightarrow> 'x call list \<times> ('x, 'g) loop_state" where
  "body ex st =
     (let (u_noise, g1) = randn ex (vdiv u_sigmas sqrtdt) (gen st);
          u_noisy = vadd u_nom u_noise;
          u_simu = vscale u_nom dt;
          u_est = vscale u_noisy dt;
          u_unfilt = vscale u_noisy dt;
          (X_sim, f1) = system_model_call ex (system_model st) (X_simulation st) u_simu;
          (measurements, draws, g2) = simulate_measurements ex X_sim measurement_models g1;
          propagates = propagate_all f1 u_est;
          (X_unf, f2) = system_model_call ex f1 (X_unfiltered st) u_unfilt;
          k = to_int (dmul_int (t st) 100);
          landmarks = (if k smod landmark_period = 0
                       then update_landmarks (zip measurement_models measurements) else []);
          (gps, g3) = (if k smod gps_period = 0 then update_gps ex X_sim g2 else ([], g2))
      in (Randn (vdiv u_sigmas sqrtdt) # draws @ propagates @ landmarks @ gps @ read_results,
          st\<lparr>X_simulation := X_sim, X_unfiltered := X_unf, system_model := f2, gen := g3\<rparr>))"

text \<open>
  \<^verbatim>\<open>for (double t = 0; t < 350; t += dt)\<close>: the calls of each pass, one list per pass.
\<close>

function run_loop :: "('x, 'g) extern \<Rightarrow> ('x, 'g) loop_state \<Rightarrow> 'x call list list" where
  "run_loop ex st =
     (if t st < t_limit
      then fst (body ex st) # run_loop ex ((snd (body ex st))\<lparr>t := dadd (t st) dt_d\<rparr>)
      else [])"
  by pat_completeness auto
termination
proof (relation "measure (\<lambda>(ex, st). t_limit - t st)")
  show "wf (measure (\<lambda>(ex, st). t_limit - t st))" by simp
next
  fix ex :: "('x, 'g) extern" and st :: "('x, 'g) loop_state"
  assume lt: "t st < t_limit"
  let ?s = "t st + dt_d"
  have "t st < rnd53 ?s"
  proof (cases "?s < 2 ^ 53")
    case True
    then show ?thesis by (simp add: rnd53_def dt_d_def)
  next
    case False
    let ?g = "(2::nat) ^ (floorlog 2 ?s - 53)"
    have "?s < 2 ^ 68" using lt by (simp add: t_limit_def dt_d_def)
    then have "floorlog 2 ?s \<le> 68" by (intro floorlog_leI) simp_all
    then have "?g \<le> 2 ^ 15" by (intro power_increasing) simp_all
    moreover have "?s mod ?g < ?g" by simp
    moreover have "?s = ?s div ?g * ?g + ?s mod ?g" by (rule div_mult_mod_eq [symmetric])
    ultimately have "t st + dt_d < ?s div ?g * ?g + 2 ^ 15" by linarith
    then have low: "t st < ?s div ?g * ?g" by (simp add: dt_d_def)
    have "?s div ?g * ?g \<le> rnd53 ?s"
      using False by (simp add: rnd53_def Let_def)
    with low show ?thesis by linarith
  qed
  then show "((ex, (snd (body ex st))\<lparr>t := dadd (t st) dt_d\<rparr>), (ex, st))
      \<in> measure (\<lambda>(ex, st). t_limit - t st)"
    using lt by (simp add: dadd_def)
qed

declare run_loop.simps [simp del]

subsection \<open>Initialisation and main (lines 147, 188 to 207)\<close>

definition MANIF_PI_4 :: real where
  "MANIF_PI_4 = pi / 4"

definition init_state_cov :: "('x, 'g) extern \<Rightarrow> mat" where
  "init_state_cov ex =
     bottomRightCorner33_assign
       (topLeftCorner33_assign (default_cov ex) Identity3)
       (mscale Identity3 MANIF_PI_4)"

text \<open>
  The initial pose, the calls that set the four filters up, and the state with which the
  loop is entered.
\<close>

definition initialise ::
  "('x, 'g) extern \<Rightarrow> 'g \<Rightarrow> 'x call list \<times> ('x, 'g) loop_state" where
  "initialise ex g0 =
     (let X_simulation0 = Identity ex;
          X_unfiltered0 = Identity ex;
          f = setCovariance U (default_model ex);
          P0 = init_state_cov ex;
          (n, g1) = randn0 ex g0;
          X_init_noise = matvec (cwiseSqrt ex P0) n;
          X_init = rplus ex X_simulation0 X_init_noise
      in ([Randn0,
           Construct EKF None, SetState EKF X_init, SetCovariance EKF P0,
           Construct SEKF (Some (X_init, P0)),
           Construct IEKF (Some (X_init, P0)),
           Construct UKFM (Some (X_init, P0))],
          \<lparr>t = 0, X_simulation = X_simulation0, X_unfiltered = X_unfiltered0,
           system_model = f, gen = g1\<rparr>))"

definition main :: "('x, 'g) extern \<Rightarrow> 'g \<Rightarrow> 'x call list" where
  "main ex g0 = fst (initialise ex g0) @ concat (run_loop ex (snd (initialise ex g0)))"


subsection \<open>Reading the calls of a pass\<close>

text \<open>Classifiers and selectors on calls, used to state what a pass does.\<close>

fun is_propagate :: "'x call \<Rightarrow> bool" where
  "is_propagate (Propagate k f u d) = True"
| "is_propagate _ = False"

fun is_update :: "'x call \<Rightarrow> bool" where
  "is_update (Update k m y) = True"
| "is_update _ = False"

fun is_landmark_update :: "'x call \<Rightarrow> bool" where
  "is_landmark_update (Update k (Landmark3D b Q) y) = True"
| "is_landmark_update _ = False"

fun is_gps_update :: "'x call \<Rightarrow> bool" where
  "is_gps_update (Update k (DummyGPS Q) y) = True"
| "is_gps_update _ = False"

fun dt_argument :: "'x call \<Rightarrow> real option" where
  "dt_argument (Propagate k f u d) = d"
| "dt_argument _ = None"

fun filter_of :: "'x call \<Rightarrow> fkind option" where
  "filter_of (Propagate k f u d) = Some k"
| "filter_of (Update k m y) = Some k"
| "filter_of _ = None"

fun model_of :: "'x call \<Rightarrow> measmodel option" where
  "model_of (Update k m y) = Some m"
| "model_of _ = None"

fun sys_model_of :: "'x call \<Rightarrow> sysmodel option" where
  "sys_model_of (Propagate k f u d) = Some f"
| "sys_model_of _ = None"

text \<open>
  Named intermediate values of a pass: the control noise drawn at line 217, the noisy
  control \<^verbatim>\<open>u_est\<close> of line 221, the simulated pose after line 225, the result of the
  measurement loop of lines 228 to 238, and \<^verbatim>\<open>int(t*100)\<close>.
\<close>

definition u_noise_of :: "('x, 'g) extern \<Rightarrow> ('x, 'g) loop_state \<Rightarrow> vec" where
  "u_noise_of ex st = fst (randn ex (vdiv u_sigmas sqrtdt) (gen st))"

definition u_est_of :: "('x, 'g) extern \<Rightarrow> ('x, 'g) loop_state \<Rightarrow> vec" where
  "u_est_of ex st = vscale (vadd u_nom (u_noise_of ex st)) dt"

definition X_sim_of :: "('x, 'g) extern \<Rightarrow> ('x, 'g) loop_state \<Rightarrow> 'x" where
  "X_sim_of ex st = rplus ex (X_simulation st) (vscale u_nom dt)"

definition measured_of ::
  "('x, 'g) extern \<Rightarrow> ('x, 'g) loop_state \<Rightarrow> vec list \<times> 'x call list \<times> 'g" where
  "measured_of ex st =
     simulate_measurements ex (X_sim_of ex st) measurement_models
       (snd (randn ex (vdiv u_sigmas sqrtdt) (gen st)))"

definition pass_index :: "('x, 'g) loop_state \<Rightarrow> int" where
  "pass_index st = to_int (dmul_int (t st) 100)"

text \<open>
  A concrete set of collaborators on which the theorems are exercised: poses are
  6-vectors under addition, a landmark is seen as its offset from the position, every
  noise draw is zero and the generator counts the draws.
\<close>

definition flat_extern :: "(vec, nat) extern" where
  "flat_extern =
     \<lparr>Identity = [0, 0, 0, 0, 0, 0],
      rplus = vadd,
      h_eval = (\<lambda>m X. case m of Landmark3D b Q \<Rightarrow> map2 (-) b (take 3 X) | DummyGPS Q \<Rightarrow> take 3 X),
      randn = (\<lambda>sigmas g. (map (\<lambda>s. 0) sigmas, Suc g)),
      randn0 = (\<lambda>g. ([0, 0, 0, 0, 0, 0], Suc g)),
      cwiseSqrt = map (map sqrt),
      default_cov = map (\<lambda>i. map (\<lambda>j. real (10 * i + j)) [0..<6]) [0..<6],
      default_model = \<lparr>sys_cov = []\<rparr>\<rparr>"

subsection \<open>The failure policy of the filters, from the specification\<close>

text \<open>
  The filters are not part of the driver file, which only calls \<^verbatim>\<open>propagate\<close> and
  \<^verbatim>\<open>update\<close> and discards whatever they return. What follows is written from the
  specification (sections 3, 4.3, 6 and 7), with the linear algebra it needs.
\<close>

definition vsub :: "vec \<Rightarrow> vec \<Rightarrow> vec" where
  "vsub a b = map2 (-) a b"

definition madd :: "mat \<Rightarrow> mat \<Rightarrow> mat" where
  "madd A B = map2 vadd A B"

definition msub :: "mat \<Rightarrow> mat \<Rightarrow> mat" where
  "msub A B = map2 vsub A B"

definition mmul :: "mat \<Rightarrow> mat \<Rightarrow> mat" where
  "mmul A B = map (\<lambda>row. map (\<lambda>col. sum_list (cwiseProduct row col)) (transpose B)) A"

definition symmetrise :: "mat \<Rightarrow> mat" where
  "symmetrise P = mscale (madd P (transpose P)) (1 / 2)"

text \<open>
  Modelled from the spec: the error kinds of section 7 and the content of a filter
  (section 3: a state on the group and a covariance on the tangent space); the filter
  classes themselves are not among the sources at hand.
\<close>

datatype error = InvalidArgument | NumericalFailure | DimensionMismatch

record 'x filter_state =
  f_state :: 'x
  f_cov :: mat

text \<open>
  Modelled from the spec: the propagation policy of section 7, for any operation of any of
  the four filters, whose implementations are not among the sources at hand. \<open>num\<close> is
  the numeric content of the operation as section 4 gives it; it ends in \<open>None\<close> when a
  factorisation breaks down. The spec: "filters do not recover internally. On numerical-failure, the filter
  leaves its state and covariance unchanged from before the offending step (transactional
  update) and surfaces the failure to the driver. There are no retries inside the core."
  The operation returns the filter as the call leaves it and the signal surfaced.
\<close>

definition filter_operation ::
  "('x filter_state \<Rightarrow> 'x filter_state option) \<Rightarrow> 'x filter_state
     \<Rightarrow> 'x filter_state \<times> error option" where
  "filter_operation num f =
     (case num f of None \<Rightarrow> (f, Some NumericalFailure) | Some f' \<Rightarrow> (f', None))"

text \<open>
  What the filter operations take from outside: the retraction \<open>X \<cdot> Exp(\<delta>)\<close>, value and
  Jacobian of a measurement model, the two Jacobians of the system model, and the linear
  solve through a Cholesky factorisation, which yields \<open>None\<close> when the factorisation
  breaks down (the matrix is not positive definite).
\<close>

record 'x numerics =
  Exp_plus :: "'x \<Rightarrow> vec \<Rightarrow> 'x"
  h_value :: "measmodel \<Rightarrow> 'x \<Rightarrow> vec"
  h_jacobian :: "measmodel \<Rightarrow> 'x \<Rightarrow> mat"
  f_jacobian_state :: "'x \<Rightarrow> vec \<Rightarrow> mat"
  f_jacobian_noise :: "'x \<Rightarrow> vec \<Rightarrow> mat"
  cholesky_solve :: "mat \<Rightarrow> mat \<Rightarrow> mat option"

fun model_cov :: "measmodel \<Rightarrow> mat" where
  "model_cov (Landmark3D b Q) = Q"
| "model_cov (DummyGPS Q) = Q"

text \<open>
  Modelled from the spec: the innovation covariance \<open>S = H P H\<^sup>T + R\<close> of section 4.3 (the
  EKF class is not among the sources at hand).
\<close>

definition innovation_cov :: "'x numerics \<Rightarrow> measmodel \<Rightarrow> 'x filter_state \<Rightarrow> mat" where
  "innovation_cov N m f =
     (let H = h_jacobian N m (f_state f)
      in madd (mmul (mmul H (f_cov f)) (transpose H)) (model_cov m))"

text \<open>
  Modelled from the spec: the EKF update of section 4.3 (its source is not at hand):
  innovation \<open>\<nu> = z - h(X)\<close>, gain \<open>K = P H\<^sup>T S\<^sup>-\<^sup>1\<close> solved through the Cholesky factorisation of
  \<open>S\<close>, correction \<open>X \<cdot> Exp(K \<nu>)\<close>, Joseph form for the covariance, symmetrisation; "S
  not positive definite: skip the update and report a numerical-failure signal".
\<close>

definition ekf_update_num ::
  "'x numerics \<Rightarrow> measmodel \<Rightarrow> vec \<Rightarrow> 'x filter_state \<Rightarrow> 'x filter_state option" where
  "ekf_update_num N m z f =
     (let X = f_state f; P = f_cov f;
          H = h_jacobian N m X;
          nu = vsub z (h_value N m X);
          S = innovation_cov N m f
      in case cholesky_solve N S (mmul H (transpose P)) of
           None \<Rightarrow> None
         | Some KT \<Rightarrow>
             (let K = transpose KT;
                  delta = matvec K nu;
                  I_KH = msub (asDiagonal (replicate (length P) 1)) (mmul K H);
                  P' = madd (mmul (mmul I_KH P) (transpose I_KH))
                         (mmul (mmul K (model_cov m)) (transpose K))
              in Some \<lparr>f_state = Exp_plus N X delta, f_cov = symmetrise P'\<rparr>))"

text \<open>
  Modelled from the spec: the EKF propagation of section 4.3 (its source is not at hand):
  \<open>X \<cdot> Exp(u)\<close>, \<open>F P F\<^sup>T + W Q W\<^sup>T\<close>, symmetrisation. It involves no factorisation.
\<close>

definition ekf_propagate_num ::
  "'x numerics \<Rightarrow> sysmodel \<Rightarrow> vec \<Rightarrow> 'x filter_state \<Rightarrow> 'x filter_state option" where
  "ekf_propagate_num N sm u f =
     (let X = f_state f; P = f_cov f;
          F = f_jacobian_state N X u;
          W = f_jacobian_noise N X u;
          P' = madd (mmul (mmul F P) (transpose F)) (mmul (mmul W (sys_cov sm)) (transpose W))
      in Some \<lparr>f_state = Exp_plus N X u, f_cov = symmetrise P'\<rparr>)"

text \<open>
  Modelled from the spec: \<^verbatim>\<open>update\<close> and \<^verbatim>\<open>propagate\<close> of the EKF as the interface of
  section 6 exposes them (their source is not at hand), under the policy of section 7.
\<close>

definition ekf_update ::
  "'x numerics \<Rightarrow> measmodel \<Rightarrow> vec \<Rightarrow> 'x filter_state \<Rightarrow> 'x filter_state \<times> error option" where
  "ekf_update N m z = filter_operation (ekf_update_num N m z)"

definition ekf_propagate ::
  "'x numerics \<Rightarrow> sysmodel \<Rightarrow> vec \<Rightarrow> 'x filter_state \<Rightarrow> 'x filter_state \<times> error option" where
  "ekf_propagate N sm u = filter_operation (ekf_propagate_num N sm u)"

text \<open>
  A concrete instance on which the policy is exercised: two-dimensional vectors under
  addition, identity Jacobians, and a solver for 2x2 systems that refuses a matrix whose
  leading minors are not positive.
\<close>

definition strict_numerics :: "vec numerics" where
  "strict_numerics =
     \<lparr>Exp_plus = vadd,
      h_value = (\<lambda>m X. X),
      h_jacobian = (\<lambda>m X. [[1, 0], [0, 1]]),
      f_jacobian_state = (\<lambda>X u. [[1, 0], [0, 1]]),
      f_jacobian_noise = (\<lambda>X u. [[1, 0], [0, 1]]),
      cholesky_solve = (\<lambda>S B. if 0 < S ! 0 ! 0 \<and> 0 < S ! 0 ! 0 * S ! 1 ! 1 - S ! 0 ! 1 * S ! 1 ! 0
         then Some (map (\<lambda>i. map (\<lambda>j.
                (if i = 0 then S ! 1 ! 1 * B ! 0 ! j - S ! 0 ! 1 * B ! 1 ! j
                 else S ! 0 ! 0 * B ! 1 ! j - S ! 1 ! 0 * B ! 0 ! j)
                / (S ! 0 ! 0 * S ! 1 ! 1 - S ! 0 ! 1 * S ! 1 ! 0)) [0, 1 :: nat]) [0, 1 :: nat])
         else None)\<rparr>"

subsection \<open>Facts about the binary64 counter\<close>

lemma dt_d_nearest:
  "2 ^ 52 \<le> dt_d \<and> dt_d < 2 ^ 53 \<and> \<bar>100 * int dt_d - 2 ^ 59\<bar> < 50"
  by (simp add: dt_d_def)

lemma rnd53_nearest:
  assumes "2 ^ 53 \<le> s"
  shows "2 ^ (floorlog 2 s - 53) dvd rnd53 s
         \<and> 2 * rnd53 s \<le> 2 * s + 2 ^ (floorlog 2 s - 53)
         \<and> 2 * s \<le> 2 * rnd53 s + 2 ^ (floorlog 2 s - 53)"
proof -
  define g :: nat where "g = 2 ^ (floorlog 2 s - 53)"
  define q where "q = s div g"
  define r where "r = s mod g"
  have g: "0 < g" by (simp add: g_def)
  have sg: "s = q * g + r" by (simp add: q_def r_def)
  have rg: "r < g" using g by (simp add: r_def)
  have ns: "\<not> s < 2 ^ 53" using assms by simp
  have rn: "rnd53 s = (if 2 * r < g then q else if g < 2 * r then q + 1
        else if even q then q else q + 1) * g"
    using ns by (simp add: rnd53_def Let_def g_def q_def r_def)
  consider "2 * r < g" | "g < 2 * r" | "2 * r = g"
    by linarith
  then have "g dvd rnd53 s \<and> 2 * rnd53 s \<le> 2 * s + g \<and> 2 * s \<le> 2 * rnd53 s + g"
  proof cases
    case 1
    then have "rnd53 s = q * g" by (simp add: rn)
    with 1 sg show ?thesis by simp
  next
    case 2
    then have "rnd53 s = q * g + g" by (simp add: rn)
    with 2 sg rg show ?thesis by simp
  next
    case 3
    then have "rnd53 s = q * g \<or> rnd53 s = q * g + g" by (simp add: rn)
    with 3 sg show ?thesis by auto
  qed
  then show ?thesis by (simp add: g_def)
qed

lemma floorlog_binade:
  assumes "2 ^ (52 + e) \<le> s" "s < 2 ^ (53 + e)"
  shows "floorlog 2 s = 53 + e"
proof -
  have "floorlog 2 s \<le> 53 + e"
    using assms(2) by (intro floorlog_leI) simp_all
  moreover have "Suc (52 + e) \<le> floorlog 2 s"
    using assms(1) by (intro floorlog_ge_SucI) simp_all
  ultimately show ?thesis by simp
qed

lemma rnd53_binade:
  assumes "2 ^ (52 + e) \<le> s" "s < 2 ^ (53 + e)" "0 < e"
  shows "rnd53 s = (if 2 * (s mod 2 ^ e) < 2 ^ e then s div 2 ^ e
                    else if 2 ^ e < 2 * (s mod 2 ^ e) then s div 2 ^ e + 1
                    else if even (s div 2 ^ e) then s div 2 ^ e else s div 2 ^ e + 1) * 2 ^ e"
proof -
  have "(2::nat) ^ 53 \<le> 2 ^ (52 + e)"
    using assms(3) power_increasing [of 53 "52 + e" "2::nat"] by simp
  then have "\<not> s < 2 ^ 53" using assms(1) by linarith
  moreover have "floorlog 2 s - 53 = e"
    using floorlog_binade [OF assms(1,2)] by simp
  ultimately show ?thesis
    by (simp add: rnd53_def Let_def)
qed

lemma dt_mod_odd:
  assumes "1 \<le> e"
  shows "odd (dt_d mod 2 ^ e)"
proof -
  have "even ((2::nat) ^ e)" using assms by simp
  moreover have "odd dt_d" by (simp add: dt_d_def)
  ultimately show ?thesis
    by (metis dvd_mod_iff)
qed

lemma dt_no_tie:
  assumes "2 \<le> e"
  shows "2 * (dt_d mod 2 ^ e) \<noteq> 2 ^ e"
proof
  assume eq: "2 * (dt_d mod 2 ^ e) = 2 ^ e"
  obtain k where k: "e = Suc (Suc k)" using assms
    by (metis Suc_le_D numeral_2_eq_2 Suc_le_mono)
  from eq k have "dt_d mod 2 ^ e = 2 * 2 ^ k" by simp
  then have "even (dt_d mod 2 ^ e)" by simp
  moreover have "odd (dt_d mod 2 ^ e)" using dt_mod_odd assms by simp
  ultimately show False by simp
qed

lemma dadd_aligned:
  assumes e: "2 \<le> e" and dv: "2 ^ e dvd T"
    and lo: "2 ^ (52 + e) \<le> T + dt_d" and hi: "T + dt_d < 2 ^ (53 + e)"
  shows "dadd T dt_d = T + dt_near e"
proof -
  let ?g = "(2::nat) ^ e"
  have d: "(T + dt_d) div ?g = T div ?g + dt_d div ?g"
    using dv by (simp add: div_plus_div_distrib_dvd_left)
  have m: "(T + dt_d) mod ?g = dt_d mod ?g"
    using dv by (simp add: mod_add_left_eq dvd_imp_mod_0 flip: mod_add_eq)
  have T: "T div ?g * ?g = T" using dv by simp
  have "0 < e" using e by simp
  from rnd53_binade [OF lo hi this] dt_no_tie [OF e]
  have "dadd T dt_d = (if 2 * (dt_d mod ?g) < ?g then T div ?g + dt_d div ?g
                       else T div ?g + dt_d div ?g + 1) * ?g"
    by (auto simp add: dadd_def d m)
  also have "\<dots> = T div ?g * ?g + dt_near e"
    by (simp add: dt_near_def algebra_simps)
  finally show ?thesis using T by simp
qed

lemma dt_near_dvd: "2 ^ e dvd dt_near e"
  by (simp add: dt_near_def)

lemma t_iter_run:
  assumes "2 \<le> e" "2 ^ e dvd T" "2 ^ (52 + e) \<le> T + dt_d"
    and "T + (n - 1) * dt_near e + dt_d < 2 ^ (53 + e)"
  shows "t_iter n T = T + n * dt_near e"
  using assms(4)
proof (induction n)
  case 0
  show ?case by simp
next
  case (Suc n)
  have "T + (n - 1) * dt_near e + dt_d \<le> T + n * dt_near e + dt_d"
    by (simp add: mult_le_mono1)
  moreover have hi: "T + n * dt_near e + dt_d < 2 ^ (53 + e)"
    using Suc.prems by simp
  ultimately have "T + (n - 1) * dt_near e + dt_d < 2 ^ (53 + e)"
    by (rule le_less_trans)
  then have ih: "t_iter n T = T + n * dt_near e" by (rule Suc.IH)
  have "dadd (T + n * dt_near e) dt_d = T + n * dt_near e + dt_near e"
  proof (rule dadd_aligned [OF assms(1)])
    show "2 ^ e dvd T + n * dt_near e"
      using assms(2) dt_near_dvd by (simp add: dvd_add)
    show "2 ^ (52 + e) \<le> T + n * dt_near e + dt_d"
      using assms(3) by linarith
    show "T + n * dt_near e + dt_d < 2 ^ (53 + e)"
      by (rule hi)
  qed
  then show ?case by (simp add: ih)
qed

lemma t_iter_add: "t_iter (m + n) T = t_iter n (t_iter m T)"
  by (induction n) simp_all

lemma t_iter_front: "t_iter (Suc n) T = t_iter n (dadd T dt_d)"
  using t_iter_add [of 1 n T] by simp

lemma t_iter_single:
  assumes "t_iter m 0 = T" "2 ^ (52 + e) \<le> T + dt_d" "T + dt_d < 2 ^ (53 + e)" "0 < e"
    and "V = (if 2 * ((T + dt_d) mod 2 ^ e) < 2 ^ e then (T + dt_d) div 2 ^ e
                    else if 2 ^ e < 2 * ((T + dt_d) mod 2 ^ e) then (T + dt_d) div 2 ^ e + 1
                    else if even ((T + dt_d) div 2 ^ e) then (T + dt_d) div 2 ^ e
                    else (T + dt_d) div 2 ^ e + 1) * 2 ^ e"
    and "Suc m = k"
  shows "t_iter k 0 = V"
  using rnd53_binade [OF assms(2,3,4)] assms(1,5) assms(6) [symmetric] by (simp add: dadd_def)

lemma t_iter_segment:
  assumes "t_iter m 0 = T" "2 \<le> e" "2 ^ e dvd T" "2 ^ (52 + e) \<le> T + dt_d"
    and "T + (n - 1) * D + dt_d < 2 ^ (53 + e)" "dt_near e = D" "m + n = k" "T + n * D = V"
  shows "t_iter k 0 = V"
  using t_iter_run [OF assms(2,3,4), of n] assms(1,5,6,7,8) t_iter_add [of m n 0] by simp

text \<open>
  The counter after 35000 and after 35001 increments, computed binade by binade: where
  the unit in the last place stays \<open>2\<^sup>e\<close> the counter advances by \<open>dt_near e\<close> per step, and
  the steps that enter a new binade are rounded one by one.
\<close>

lemma t_iter_35000_35001:
  "t_iter 35000 0 = 201761263306098311168 \<and> t_iter 35001 0 = 201767027913621340160"
proof -
  have s0: "t_iter 0 0 = 0" by simp
  have s1: "t_iter 1 0 = 5764607523034235"
    by (simp add: dadd_def rnd53_def dt_d_def)
  have s2: "t_iter 2 0 = 11529215046068470"
    by (rule t_iter_single [OF s1, of 1]) (simp_all add: dt_d_def)
  have s3: "t_iter 3 0 = 17293822569102704"
    by (rule t_iter_single [OF s2, of 1]) (simp_all add: dt_d_def)
  have s6: "t_iter 6 0 = 34587645138205412"
    by (rule t_iter_segment [OF s3, of 2 3 5764607523034236])
      (simp_all add: dt_d_def dt_near_def)
  have s7: "t_iter 7 0 = 40352252661239648"
    by (rule t_iter_single [OF s6, of 3]) (simp_all add: dt_d_def)
  have s12: "t_iter 12 0 = 69175290276410808"
    by (rule t_iter_segment [OF s7, of 3 5 5764607523034232])
      (simp_all add: dt_d_def dt_near_def)
  have s13: "t_iter 13 0 = 74939897799445040"
    by (rule t_iter_single [OF s12, of 4]) (simp_all add: dt_d_def)
  have s24: "t_iter 24 0 = 138350580552821680"
    by (rule t_iter_segment [OF s13, of 4 11 5764607523034240])
      (simp_all add: dt_d_def dt_near_def)
  have s25: "t_iter 25 0 = 144115188075855904"
    by (rule t_iter_single [OF s24, of 5]) (simp_all add: dt_d_def)
  have s49: "t_iter 49 0 = 282465768628677664"
    by (rule t_iter_segment [OF s25, of 5 24 5764607523034240])
      (simp_all add: dt_d_def dt_near_def)
  have s50: "t_iter 50 0 = 288230376151711872"
    by (rule t_iter_single [OF s49, of 6]) (simp_all add: dt_d_def)
  have s99: "t_iter 99 0 = 570696144780389632"
    by (rule t_iter_segment [OF s50, of 6 49 5764607523034240])
      (simp_all add: dt_d_def dt_near_def)
  have s199: "t_iter 199 0 = 1147156897083813632"
    by (rule t_iter_segment [OF s99, of 7 100 5764607523034240])
      (simp_all add: dt_d_def dt_near_def)
  have s400: "t_iter 400 0 = 2305843009213670144"
    by (rule t_iter_segment [OF s199, of 8 201 5764607523034112])
      (simp_all add: dt_d_def dt_near_def)
  have s401: "t_iter 401 0 = 2311607616736704512"
    by (rule t_iter_single [OF s400, of 9]) (simp_all add: dt_d_def)
  have s800: "t_iter 800 0 = 4611686018427315200"
    by (rule t_iter_segment [OF s401, of 9 399 5764607523034112])
      (simp_all add: dt_d_def dt_near_def)
  have s1600: "t_iter 1600 0 = 9223372036854604800"
    by (rule t_iter_segment [OF s800, of 10 800 5764607523034112])
      (simp_all add: dt_d_def dt_near_def)
  have s1601: "t_iter 1601 0 = 9229136644377638912"
    by (rule t_iter_single [OF s1600, of 11]) (simp_all add: dt_d_def)
  have s3199: "t_iter 3199 0 = 18440979466187786240"
    by (rule t_iter_segment [OF s1601, of 11 1598 5764607523035136])
      (simp_all add: dt_d_def dt_near_def)
  have s3200: "t_iter 3200 0 = 18446744073710821376"
    by (rule t_iter_single [OF s3199, of 12]) (simp_all add: dt_d_def)
  have s6400: "t_iter 6400 0 = 36893488147416702976"
    by (rule t_iter_segment [OF s3200, of 12 3200 5764607523033088])
      (simp_all add: dt_d_def dt_near_def)
  have s12799: "t_iter 12799 0 = 73781211687331643392"
    by (rule t_iter_segment [OF s6400, of 13 6399 5764607523037184])
      (simp_all add: dt_d_def dt_near_def)
  have s25600: "t_iter 25600 0 = 147573952589625769984"
    by (rule t_iter_segment [OF s12799, of 14 12801 5764607523028992])
      (simp_all add: dt_d_def dt_near_def)
  have s25601: "t_iter 25601 0 = 147579717197148815360"
    by (rule t_iter_single [OF s25600, of 15]) (simp_all add: dt_d_def)
  have s35000: "t_iter 35000 0 = 201761263306098311168"
    by (rule t_iter_segment [OF s25601, of 15 9399 5764607523028992])
      (simp_all add: dt_d_def dt_near_def)
  have s35001: "t_iter 35001 0 = 201767027913621340160"
    by (rule t_iter_segment [OF s35000, of 15 1 5764607523028992])
      (simp_all add: dt_d_def dt_near_def)
  from s35000 s35001 show ?thesis by simp
qed

lemma dadd_dt_upper:
  assumes "T < t_limit"
  shows "dadd T dt_d \<le> T + dt_d + 2 ^ 15"
proof (cases "T + dt_d < 2 ^ 53")
  case True
  then show ?thesis by (simp add: dadd_def rnd53_def)
next
  case False
  let ?s = "T + dt_d"
  let ?g = "(2::nat) ^ (floorlog 2 ?s - 53)"
  have "?s < 2 ^ 68" using assms by (simp add: t_limit_def dt_d_def)
  then have "floorlog 2 ?s \<le> 68" by (intro floorlog_leI) simp_all
  then have g: "?g \<le> 2 ^ 15" by (intro power_increasing) simp_all
  have "rnd53 ?s \<le> (?s div ?g + 1) * ?g"
    using False by (simp add: rnd53_def Let_def)
  also have "\<dots> = ?s div ?g * ?g + ?g" by (simp add: algebra_simps)
  also have "\<dots> \<le> ?s + ?g" by simp
  finally show ?thesis using g by (simp add: dadd_def)
qed

lemma t_iter_linear_bound:
  "n \<le> 34999 \<Longrightarrow> t_iter n 0 \<le> n * (dt_d + 2 ^ 15)"
proof (induction n)
  case 0
  show ?case by simp
next
  case (Suc n)
  then have ih: "t_iter n 0 \<le> n * (dt_d + 2 ^ 15)" by simp
  have "n * (dt_d + 2 ^ 15) \<le> 34998 * (dt_d + 2 ^ 15)"
    using Suc.prems by (intro mult_le_mono1) simp
  also have "\<dots> < t_limit" by (simp add: dt_d_def t_limit_def)
  finally have "t_iter n 0 < t_limit" using ih by linarith
  from dadd_dt_upper [OF this] ih show ?case by (simp add: algebra_simps)
qed

lemma t_iter_below_limit:
  assumes "n \<le> 35000"
  shows "t_iter n 0 < t_limit"
proof (cases "n = 35000")
  case True
  then show ?thesis using t_iter_35000_35001 by (simp add: t_limit_def)
next
  case False
  with assms have n: "n \<le> 34999" by simp
  have "t_iter n 0 \<le> n * (dt_d + 2 ^ 15)" using n by (rule t_iter_linear_bound)
  also have "\<dots> \<le> 34999 * (dt_d + 2 ^ 15)" using n by (intro mult_le_mono1) simp
  also have "\<dots> < t_limit" by (simp add: dt_d_def t_limit_def)
  finally show ?thesis .
qed

lemma run_loop_length:
  assumes "\<And>j. j < n \<Longrightarrow> t_iter j (t st) < t_limit" "\<not> t_iter n (t st) < t_limit"
  shows "length (run_loop ex st) = n"
  using assms
proof (induction n arbitrary: st)
  case 0
  then show ?case by (subst run_loop.simps) simp
next
  case (Suc n)
  let ?st' = "(snd (body ex st))\<lparr>t := dadd (t st) dt_d\<rparr>"
  have lt: "t st < t_limit" using Suc.prems(1) [of 0] by simp
  have "length (run_loop ex ?st') = n"
  proof (rule Suc.IH)
    fix j assume "j < n"
    then show "t_iter j (t ?st') < t_limit"
      using Suc.prems(1) [of "Suc j"] by (simp add: t_iter_front del: t_iter.simps)
  next
    show "\<not> t_iter n (t ?st') < t_limit"
      using Suc.prems(2) by (simp add: t_iter_front del: t_iter.simps)
  qed
  then show ?case using lt by (subst run_loop.simps) simp
qed

lemma initialise_t: "t (snd (initialise ex g0)) = 0"
  by (simp add: initialise_def Let_def split_def)

subsection \<open>Facts about a pass through the loop\<close>

lemma body_calls:
  "fst (body ex st) =
     Randn (vdiv u_sigmas sqrtdt) # fst (snd (measured_of ex st))
     @ propagate_all (system_model st) (u_est_of ex st)
     @ (if pass_index st smod landmark_period = 0
        then update_landmarks (zip measurement_models (fst (measured_of ex st))) else [])
     @ (if pass_index st smod gps_period = 0
        then fst (update_gps ex (X_sim_of ex st) (snd (snd (measured_of ex st)))) else [])
     @ read_results"
  by (simp add: body_def Let_def split_def system_model_call_def measured_of_def
      X_sim_of_def u_est_of_def u_noise_of_def pass_index_def)

lemma simulate_measurements_shape:
  "length (fst (simulate_measurements ex X ms g)) = length ms \<and>
   fst (snd (simulate_measurements ex X ms g)) = replicate (length ms) (Randn y_sigmas)"
  by (induction ms arbitrary: g) (simp_all add: Let_def split_def)

lemma periods: "landmark_period = 2" "gps_period = 10"
  by (simp_all add: landmark_period_def gps_period_def c_int_def landmark_freq_def gps_freq_def)

lemma measured_explicit:
  "\<exists>y0 y1 y2 y3 y4. fst (measured_of ex st) = [y0, y1, y2, y3, y4]"
  by (simp add: measured_of_def measurement_models_def Let_def split_def)

lemma gps_calls:
  "fst (update_gps ex X g) =
     Randn y_gps_sigmas #
     map (\<lambda>k. Update k (DummyGPS R_gps)
            (vadd (h_eval ex (DummyGPS R_gps) X) (fst (randn ex y_gps_sigmas g))))
       [EKF, SEKF, IEKF, UKFM]"
  by (simp add: update_gps_def Let_def split_def)

lemma smod_zero_iff_dvd: "(k::int) smod n = 0 \<longleftrightarrow> n dvd k"
proof -
  have "k smod n = 0 \<longleftrightarrow> k = 0 \<or> \<bar>k\<bar> mod \<bar>n\<bar> = 0"
    by (simp add: smod_int_alt_def sgn_if)
  also have "\<dots> \<longleftrightarrow> k = 0 \<or> \<bar>n\<bar> dvd \<bar>k\<bar>"
    by (simp only: mod_eq_0_iff_dvd)
  also have "\<dots> \<longleftrightarrow> n dvd k"
    by (cases "k = 0") simp_all
  finally show ?thesis .
qed

lemma filter_replicate_if:
  "filter P (replicate n x) = (if P x then replicate n x else [])"
  by (induction n) simp_all

lemma dropWhile_replicate_all:
  "P x \<Longrightarrow> dropWhile P (replicate n x @ ys) = dropWhile P ys"
  by (induction n) simp_all

lemma draws_explicit:
  "fst (snd (measured_of ex st)) = replicate 5 (Randn y_sigmas)"
proof -
  have "length measurement_models = 5"
    by (simp add: measurement_models_def)
  then show ?thesis
    by (simp add: measured_of_def simulate_measurements_shape)
qed

lemma pass_propagates:
  "filter is_propagate (fst (body ex st)) = propagate_all (system_model st) (u_est_of ex st)"
proof -
  obtain y0 y1 y2 y3 y4 where ys: "fst (measured_of ex st) = [y0, y1, y2, y3, y4]"
    using measured_explicit by blast
  show ?thesis
    by (simp add: body_calls ys draws_explicit gps_calls propagate_all_def read_results_def
        measurement_models_def filter_replicate_if)
qed

lemma pass_gps_updates:
  "filter is_gps_update (fst (body ex st)) =
     (if 10 dvd pass_index st
      then map (\<lambda>k. Update k (DummyGPS R_gps)
                  (vadd (h_eval ex (DummyGPS R_gps) (X_sim_of ex st))
                     (fst (randn ex y_gps_sigmas (snd (snd (measured_of ex st)))))))
             [EKF, SEKF, IEKF, UKFM]
      else [])"
proof -
  obtain y0 y1 y2 y3 y4 where ys: "fst (measured_of ex st) = [y0, y1, y2, y3, y4]"
    using measured_explicit by blast
  show ?thesis
    by (simp add: body_calls ys draws_explicit gps_calls propagate_all_def read_results_def
        measurement_models_def filter_replicate_if periods smod_zero_iff_dvd)
qed

lemma body_state:
  "system_model (snd (body ex st)) = system_model st"
  "X_simulation (snd (body ex st)) = rplus ex (X_simulation st) (vscale u_nom dt)"
  "X_unfiltered (snd (body ex st)) = rplus ex (X_unfiltered st) (u_est_of ex st)"
  "t (snd (body ex st)) = t st"
  by (simp_all add: body_def Let_def split_def system_model_call_def u_est_of_def u_noise_of_def)

lemma pass_index_initial: "pass_index (snd (initialise ex g0)) = 0"
  by (simp add: pass_index_def initialise_t dmul_int_def rnd53_def to_int_def)

lemma R_gps_explicit:
  "R_gps = [[1 / 10 ^ 4, 0, 0], [0, 1 / 10 ^ 4, 0], [0, 0, 1 / 10 ^ 4]]"
  by (simp add: R_gps_def y_sigmas_def cwiseProduct_def)

lemma u_sigmas_explicit:
  "u_sigmas = [sqrt (9 / 10 ^ 6), sqrt (9 / 10 ^ 6), sqrt (9 / 10 ^ 6),
               sqrt (1 / 10 ^ 4), sqrt (1 / 10 ^ 4), sqrt (1 / 10 ^ 4)]"
  by (simp add: u_sigmas_def var_odometry_def var_gyro_def numeral_3_eq_3)

lemma upt_0_6: "[0..<6] = [0, 1, 2, 3, 4, 5]"
  by code_simp

lemma Identity3_explicit: "Identity3 = [[1, 0, 0], [0, 1, 0], [0, 0, 1]]"
  by (simp add: Identity3_def)

lemma init_state_cov_explicit:
  "init_state_cov ex =
     [[1, 0, 0, default_cov ex ! 0 ! 3, default_cov ex ! 0 ! 4, default_cov ex ! 0 ! 5],
      [0, 1, 0, default_cov ex ! 1 ! 3, default_cov ex ! 1 ! 4, default_cov ex ! 1 ! 5],
      [0, 0, 1, default_cov ex ! 2 ! 3, default_cov ex ! 2 ! 4, default_cov ex ! 2 ! 5],
      [default_cov ex ! 3 ! 0, default_cov ex ! 3 ! 1, default_cov ex ! 3 ! 2, pi / 4, 0, 0],
      [default_cov ex ! 4 ! 0, default_cov ex ! 4 ! 1, default_cov ex ! 4 ! 2, 0, pi / 4, 0],
      [default_cov ex ! 5 ! 0, default_cov ex ! 5 ! 1, default_cov ex ! 5 ! 2, 0, 0, pi / 4]]"
  by (simp add: init_state_cov_def topLeftCorner33_assign_def bottomRightCorner33_assign_def
      upt_0_6 Identity3_explicit mscale_def vscale_def MANIF_PI_4_def)

lemma body_propagate_model:
  assumes "c \<in> set (fst (body ex st))" "is_propagate c"
  shows "sys_model_of c = Some (system_model st)"
proof -
  from assms have "c \<in> set (filter is_propagate (fst (body ex st)))" by simp
  then show ?thesis
    by (auto simp add: pass_propagates propagate_all_def)
qed

lemma run_loop_models:
  "\<forall>cs \<in> set (run_loop ex st). \<forall>c \<in> set cs.
     is_propagate c \<longrightarrow> sys_model_of c = Some (system_model st)"
proof (induction ex st rule: run_loop.induct)
  case (1 ex st)
  show ?case
  proof (cases "t st < t_limit")
    case True
    let ?st' = "(snd (body ex st))\<lparr>t := dadd (t st) dt_d\<rparr>"
    have sm: "system_model ?st' = system_model st"
      by (simp add: body_state)
    have rl: "run_loop ex st = fst (body ex st) # run_loop ex ?st'"
      using True by (subst run_loop.simps) simp
    from "1.IH" [OF True] sm show ?thesis
      unfolding rl by (auto dest: body_propagate_model)
  next
    case False
    then have "run_loop ex st = []" by (subst run_loop.simps) simp
    then show ?thesis by simp
  qed
qed

lemma ekf_update_num_None:
  "ekf_update_num N m z g = None \<longleftrightarrow>
   cholesky_solve N (innovation_cov N m g)
     (mmul (h_jacobian N m (f_state g)) (transpose (f_cov g))) = None"
  by (cases "cholesky_solve N (innovation_cov N m g)
       (mmul (h_jacobian N m (f_state g)) (transpose (f_cov g)))")
    (simp_all add: ekf_update_num_def Let_def)

lemma filter_operation_policy:
  "(snd (filter_operation n h) = Some NumericalFailure \<longleftrightarrow> n h = None)
   \<and> (snd (filter_operation n h) = Some NumericalFailure \<longrightarrow> fst (filter_operation n h) = h)
   \<and> (snd (filter_operation n h) \<noteq> Some NumericalFailure \<longrightarrow>
        snd (filter_operation n h) = None \<and> n h = Some (fst (filter_operation n h)))"
  by (cases "n h") (simp_all add: filter_operation_def)

section \<open>The claims\<close>

text \<open>
  Claim C2 (the driver runs a loop of 35 000 propagate steps, t from 0 to 350 in steps of
  0.01). Evaluated on the binary64 counter, the loop body runs 35001 times: after 35000
  increments the counter holds 201761263306098311168 / 2^59, about 349.99999999983, which
  is still below 350, so one more pass is made.
\<close>

theorem loop_runs_35001_times:
  "length (run_loop ex (snd (initialise ex g0))) = 35001"
proof (rule run_loop_length)
  fix j :: nat assume "j < 35001"
  then show "t_iter j (t (snd (initialise ex g0))) < t_limit"
    using t_iter_below_limit [of j] by (simp add: initialise_t)
next
  show "\<not> t_iter 35001 (t (snd (initialise ex g0))) < t_limit"
    using t_iter_35000_35001 by (simp add: initialise_t t_limit_def)
qed

text \<open>
  Claim C1. The GPS measurement-noise covariance \<^verbatim>\<open>R_gps\<close> handed to the filters' update is
  built from the landmark sigmas: it is diag(y_sigmas squared) = 1e-4 I, and it differs from
  diag(y_gps_sigmas squared) = 6e-3 I, although the noise added to the simulated GPS measurement
  is drawn with \<^verbatim>\<open>randn(y_gps_sigmas)\<close>, the sigmas being sqrt(6e-3) on each axis.
\<close>

theorem gps_covariance_from_landmark_sigmas:
  "R_gps = asDiagonal (map (\<lambda>s. s\<^sup>2) y_sigmas)
   \<and> R_gps = [[1 / 10 ^ 4, 0, 0], [0, 1 / 10 ^ 4, 0], [0, 0, 1 / 10 ^ 4]]
   \<and> y_gps_sigmas = replicate 3 (sqrt (6 / 10 ^ 3))
   \<and> asDiagonal (map (\<lambda>s. s\<^sup>2) y_gps_sigmas) =
       [[6 / 10 ^ 3, 0, 0], [0, 6 / 10 ^ 3, 0], [0, 0, 6 / 10 ^ 3]]
   \<and> R_gps \<noteq> asDiagonal (map (\<lambda>s. s\<^sup>2) y_gps_sigmas)
   \<and> map model_of (filter is_gps_update (fst (body ex st))) =
       (if 10 dvd pass_index st then replicate 4 (Some (DummyGPS R_gps)) else [])
   \<and> fst (update_gps ex X g) =
       Randn y_gps_sigmas #
       map (\<lambda>k. Update k (DummyGPS R_gps)
              (vadd (h_eval ex (DummyGPS R_gps) X) (fst (randn ex y_gps_sigmas g))))
         [EKF, SEKF, IEKF, UKFM]"
proof -
  have a: "R_gps = asDiagonal (map (\<lambda>s. s\<^sup>2) y_sigmas)"
    by (simp add: R_gps_def y_sigmas_def cwiseProduct_def power2_eq_square)
  have b: "y_gps_sigmas = replicate 3 (sqrt (6 / 10 ^ 3))"
    by (simp add: y_gps_sigmas_def numeral_3_eq_3)
  have c: "asDiagonal (map (\<lambda>s. s\<^sup>2) y_gps_sigmas) =
       [[6 / 10 ^ 3, 0, 0], [0, 6 / 10 ^ 3, 0], [0, 0, 6 / 10 ^ 3]]"
    by (simp add: y_gps_sigmas_def)
  have d: "R_gps \<noteq> asDiagonal (map (\<lambda>s. s\<^sup>2) y_gps_sigmas)"
    unfolding c R_gps_explicit by simp
  have e: "map model_of (filter is_gps_update (fst (body ex st))) =
       (if 10 dvd pass_index st then replicate 4 (Some (DummyGPS R_gps)) else [])"
    by (simp add: pass_gps_updates numeral_eq_Suc)
  show ?thesis
    by (intro conjI a R_gps_explicit b c d e gps_calls)
qed

text \<open>
  Claim C3. The process-noise covariance given to the system model is
  Q = diag(sigma squared) / dt, sigma being sqrt(9e-6) on the first three axes and sqrt(1e-4)
  on the last three; each pass draws the control noise with standard deviations
  sigma / sqrt(dt), adds it to the nominal control and scales the sum by dt before it is
  passed to the filters.
\<close>

theorem process_noise_covariance:
  "u_sigmas = [sqrt (9 / 10 ^ 6), sqrt (9 / 10 ^ 6), sqrt (9 / 10 ^ 6),
               sqrt (1 / 10 ^ 4), sqrt (1 / 10 ^ 4), sqrt (1 / 10 ^ 4)]
   \<and> U = mscale (asDiagonal (map (\<lambda>s. s\<^sup>2) u_sigmas)) (1 / dt)
   \<and> U = asDiagonal [9 / 10 ^ 4, 9 / 10 ^ 4, 9 / 10 ^ 4, 1 / 10 ^ 2, 1 / 10 ^ 2, 1 / 10 ^ 2]
   \<and> sys_cov (system_model (snd (initialise ex g0))) = U
   \<and> hd (fst (body ex st)) = Randn (map (\<lambda>s. s / sqrt dt) u_sigmas)
   \<and> u_noise_of ex st = fst (randn ex (map (\<lambda>s. s / sqrt dt) u_sigmas) (gen st))
   \<and> filter is_propagate (fst (body ex st)) =
       propagate_all (system_model st) (vscale (vadd u_nom (u_noise_of ex st)) dt)"
proof -
  have sq: "sqrt (9 / 10 ^ 6) * sqrt (9 / 10 ^ 6) = 9 / 10 ^ 6"
    "sqrt (1 / 10 ^ 4) * sqrt (1 / 10 ^ 4) = 1 / 10 ^ 4"
    by simp_all
  have b: "U = mscale (asDiagonal (map (\<lambda>s. s\<^sup>2) u_sigmas)) (1 / dt)"
    unfolding U_def u_sigmas_explicit
    by (simp add: cwiseProduct_def vscale_def vdiv_def mscale_def power2_eq_square sq
        del: real_sqrt_mult_self)
  have c: "U = asDiagonal [9 / 10 ^ 4, 9 / 10 ^ 4, 9 / 10 ^ 4, 1 / 10 ^ 2, 1 / 10 ^ 2, 1 / 10 ^ 2]"
    unfolding U_def u_sigmas_explicit
    by (simp add: cwiseProduct_def vscale_def vdiv_def dt_def)
  have d: "sys_cov (system_model (snd (initialise ex g0))) = U"
    by (simp add: initialise_def Let_def split_def setCovariance_def)
  have e: "hd (fst (body ex st)) = Randn (map (\<lambda>s. s / sqrt dt) u_sigmas)"
    by (simp add: body_calls vdiv_def sqrtdt_def)
  have f: "u_noise_of ex st = fst (randn ex (map (\<lambda>s. s / sqrt dt) u_sigmas) (gen st))"
    by (simp add: u_noise_of_def vdiv_def sqrtdt_def)
  have g: "filter is_propagate (fst (body ex st)) =
       propagate_all (system_model st) (vscale (vadd u_nom (u_noise_of ex st)) dt)"
    by (simp add: pass_propagates u_est_of_def)
  show ?thesis
    by (intro conjI u_sigmas_explicit b c d e f g)
qed

text \<open>
  Claim C4. Every filter is propagated through the same operation, whose last argument
  \<^verbatim>\<open>dt\<close> is optional; in a pass the four propagate calls are those of EKF, SEKF, IEKF and
  UKFM with the same system model and the same \<^verbatim>\<open>u_est\<close>, and only the call on the IEKF
  passes \<^verbatim>\<open>dt\<close> (0.01).
\<close>

theorem only_iekf_propagate_takes_dt:
  "filter is_propagate (fst (body ex st)) =
     [Propagate EKF (system_model st) (u_est_of ex st) None,
      Propagate SEKF (system_model st) (u_est_of ex st) None,
      Propagate IEKF (system_model st) (u_est_of ex st) (Some (1 / 100)),
      Propagate UKFM (system_model st) (u_est_of ex st) None]
   \<and> map dt_argument (filter is_propagate (fst (body ex st))) = [None, None, Some dt, None]
   \<and> u_est_of ex st = vscale (vadd u_nom (fst (randn ex (vdiv u_sigmas sqrtdt) (gen st)))) dt"
  by (simp add: pass_propagates propagate_all_def dt_def u_est_of_def u_noise_of_def)

text \<open>
  Claim C5. Evaluating the system model does not change it: the one instance configured
  with \<^verbatim>\<open>setCovariance(U)\<close> before the loop serves the simulator, the unfiltered propagation
  and the four propagate calls of every pass, and an evaluation at one pose leaves a later
  evaluation at another pose as it would have been.
\<close>

theorem system_model_shared_unchanged:
  "snd (system_model_call ex f X u) = f
   \<and> fst (system_model_call ex (snd (system_model_call ex f X u)) X' u') =
       fst (system_model_call ex f X' u')
   \<and> system_model (snd (body ex st)) = system_model st
   \<and> X_simulation (snd (body ex st)) =
       fst (system_model_call ex (system_model st) (X_simulation st) (vscale u_nom dt))
   \<and> X_unfiltered (snd (body ex st)) =
       fst (system_model_call ex (system_model st) (X_unfiltered st) (u_est_of ex st))
   \<and> system_model (snd (initialise ex g0)) = setCovariance U (default_model ex)
   \<and> (\<forall>cs \<in> set (run_loop ex (snd (initialise ex g0))). \<forall>c \<in> set cs.
        is_propagate c \<longrightarrow> sys_model_of c = Some (setCovariance U (default_model ex)))"
proof -
  have i: "system_model (snd (initialise ex g0)) = setCovariance U (default_model ex)"
    by (simp add: initialise_def Let_def split_def)
  have r: "\<forall>cs \<in> set (run_loop ex (snd (initialise ex g0))). \<forall>c \<in> set cs.
        is_propagate c \<longrightarrow> sys_model_of c = Some (setCovariance U (default_model ex))"
    using run_loop_models [of ex "snd (initialise ex g0)"] unfolding i .
  show ?thesis
    by (intro conjI i r) (simp_all add: system_model_call_def body_state)
qed

theorem system_model_shared_unchanged_witness:
  "fst (body flat_extern (snd (initialise flat_extern 0)))
     \<in> set (run_loop flat_extern (snd (initialise flat_extern 0)))
   \<and> Propagate IEKF (setCovariance U (default_model flat_extern))
        (u_est_of flat_extern (snd (initialise flat_extern 0))) (Some dt)
     \<in> set (fst (body flat_extern (snd (initialise flat_extern 0))))
   \<and> is_propagate (Propagate IEKF (setCovariance U (default_model flat_extern))
        (u_est_of flat_extern (snd (initialise flat_extern 0))) (Some dt) :: vec call)
   \<and> sys_model_of (Propagate IEKF (setCovariance U (default_model flat_extern))
        (u_est_of flat_extern (snd (initialise flat_extern 0))) (Some dt) :: vec call) =
      Some (setCovariance U (default_model flat_extern))"
proof -
  let ?st = "snd (initialise flat_extern 0)"
  let ?c = "Propagate IEKF (setCovariance U (default_model flat_extern))
        (u_est_of flat_extern ?st) (Some dt) :: vec call"
  have "t ?st < t_limit" by (simp add: initialise_t t_limit_def)
  then have a: "fst (body flat_extern ?st) \<in> set (run_loop flat_extern ?st)"
    by (subst run_loop.simps) simp
  have sm: "system_model ?st = setCovariance U (default_model flat_extern)"
    by (simp add: initialise_def Let_def split_def)
  have "?c \<in> set (filter is_propagate (fst (body flat_extern ?st)))"
    by (simp add: pass_propagates propagate_all_def sm)
  then have b: "?c \<in> set (fst (body flat_extern ?st))" by simp
  have c: "is_propagate ?c" by simp
  from system_model_shared_unchanged [of flat_extern _ _ _ _ _ _ 0] a b c
  have "sys_model_of ?c = Some (setCovariance U (default_model flat_extern))"
    by blast
  with a b c show ?thesis by blast
qed

text \<open>
  Claim C7. When an operation fails numerically the filter signals numerical-failure to
  the caller and its state and covariance are those from before the call; nothing is
  retried. For the EKF update the failure is the breakdown of the Cholesky factorisation
  of the innovation covariance, and it is signalled in that case only; the EKF
  propagation never fails.
\<close>

theorem numerical_failure_is_transactional:
  "(snd (filter_operation num f) = Some NumericalFailure \<longleftrightarrow> num f = None)
   \<and> (snd (filter_operation num f) = Some NumericalFailure \<longrightarrow> fst (filter_operation num f) = f)
   \<and> (snd (filter_operation num f) \<noteq> Some NumericalFailure \<longrightarrow>
        snd (filter_operation num f) = None \<and> num f = Some (fst (filter_operation num f)))
   \<and> (cholesky_solve N (innovation_cov N m g)
          (mmul (h_jacobian N m (f_state g)) (transpose (f_cov g))) = None \<longrightarrow>
        ekf_update N m z g = (g, Some NumericalFailure))
   \<and> (snd (ekf_update N m z g) = Some NumericalFailure \<longrightarrow>
        fst (ekf_update N m z g) = g \<and>
        cholesky_solve N (innovation_cov N m g)
          (mmul (h_jacobian N m (f_state g)) (transpose (f_cov g))) = None)
   \<and> snd (ekf_propagate N sm u g) = None"
proof -
  let ?c = "cholesky_solve N (innovation_cov N m g)
          (mmul (h_jacobian N m (f_state g)) (transpose (f_cov g)))"
  note P = filter_operation_policy [of num f]
  note G = filter_operation_policy [of "ekf_update_num N m z" g]
  have upd1: "?c = None \<longrightarrow> ekf_update N m z g = (g, Some NumericalFailure)"
  proof
    assume "?c = None"
    then have "ekf_update_num N m z g = None"
      by (simp only: ekf_update_num_None)
    then show "ekf_update N m z g = (g, Some NumericalFailure)"
      by (simp add: ekf_update_def filter_operation_def)
  qed
  have upd2: "snd (ekf_update N m z g) = Some NumericalFailure \<longrightarrow>
        fst (ekf_update N m z g) = g \<and> ?c = None"
  proof
    assume "snd (ekf_update N m z g) = Some NumericalFailure"
    then have B: "snd (filter_operation (ekf_update_num N m z) g) = Some NumericalFailure"
      by (simp only: ekf_update_def)
    from G [THEN conjunct1] B have "ekf_update_num N m z g = None"
      by (rule iffD1)
    then have c: "?c = None"
      by (simp only: ekf_update_num_None)
    from G [THEN conjunct2, THEN conjunct1] B
    have "fst (filter_operation (ekf_update_num N m z) g) = g"
      by (rule mp)
    then have "fst (ekf_update N m z g) = g"
      by (simp only: ekf_update_def)
    then show "fst (ekf_update N m z g) = g \<and> ?c = None"
      using c by (rule conjI)
  qed
  have prg: "snd (ekf_propagate N sm u g) = None"
    by (simp add: ekf_propagate_def ekf_propagate_num_def Let_def filter_operation_def)
  show ?thesis
    by (intro conjI P [THEN conjunct1] P [THEN conjunct2, THEN conjunct1]
        P [THEN conjunct2, THEN conjunct2] upd1 upd2 prg)
qed

theorem numerical_failure_is_transactional_witness:
  "cholesky_solve strict_numerics
     (innovation_cov strict_numerics (DummyGPS [[0, 0], [0, 0]])
        \<lparr>f_state = [0, 0], f_cov = [[0, 0], [0, 0]]\<rparr>)
     (mmul (h_jacobian strict_numerics (DummyGPS [[0, 0], [0, 0]])
              (f_state \<lparr>f_state = [0, 0], f_cov = [[0, 0], [0, 0]]\<rparr>))
        (transpose (f_cov \<lparr>f_state = [0, 0], f_cov = [[0, 0], [0, 0]]\<rparr>))) = None
   \<and> ekf_update strict_numerics (DummyGPS [[0, 0], [0, 0]]) [1, 1]
        \<lparr>f_state = [0, 0], f_cov = [[0, 0], [0, 0]]\<rparr> =
      (\<lparr>f_state = [0, 0], f_cov = [[0, 0], [0, 0]]\<rparr>, Some NumericalFailure)
   \<and> snd (ekf_update strict_numerics (DummyGPS [[0, 0], [0, 0]]) [1, 1]
        \<lparr>f_state = [0, 0], f_cov = [[0, 0], [0, 0]]\<rparr>) = Some NumericalFailure
   \<and> fst (ekf_update strict_numerics (DummyGPS [[0, 0], [0, 0]]) [1, 1]
        \<lparr>f_state = [0, 0], f_cov = [[0, 0], [0, 0]]\<rparr>) =
      \<lparr>f_state = [0, 0], f_cov = [[0, 0], [0, 0]]\<rparr>
   \<and> snd (filter_operation (\<lambda>f. Some f) \<lparr>f_state = [0 :: real], f_cov = []\<rparr>)
        \<noteq> Some NumericalFailure
   \<and> snd (filter_operation (\<lambda>f. Some f) \<lparr>f_state = [0 :: real], f_cov = []\<rparr>) = None"
proof -
  let ?f = "\<lparr>f_state = [0, 0], f_cov = [[0, 0], [0, 0]]\<rparr> :: vec filter_state"
  let ?m = "DummyGPS [[0, 0], [0, 0]]"
  let ?h = "\<lparr>f_state = [0 :: real], f_cov = []\<rparr>"
  let ?c = "cholesky_solve strict_numerics (innovation_cov strict_numerics ?m ?f)
     (mmul (h_jacobian strict_numerics ?m (f_state ?f)) (transpose (f_cov ?f)))"
  note T = numerical_failure_is_transactional
    [where num = "\<lambda>f. Some f" and f = ?h and N = strict_numerics and m = ?m and g = ?f
       and z = "[1, 1]"]
  have H: "h_jacobian strict_numerics k X = [[1, 0], [0, 1]]" for k X
    by (simp add: strict_numerics_def)
  have tr: "transpose [[1, 0], [0, 1 :: real]] = [[1, 0], [0, 1]]"
    "transpose [[0, 0], [0, 0 :: real]] = [[0, 0], [0, 0]]"
    by code_simp+
  have S: "innovation_cov strict_numerics ?m ?f = [[0, 0], [0, 0]]"
    by (simp add: innovation_cov_def Let_def H tr mmul_def madd_def vadd_def cwiseProduct_def)
  have a: "?c = None"
    unfolding S by (simp add: strict_numerics_def)
  from T [THEN conjunct2, THEN conjunct2, THEN conjunct2, THEN conjunct1] a
  have b: "ekf_update strict_numerics ?m [1, 1] ?f = (?f, Some NumericalFailure)"
    by (rule mp)
  then have c: "snd (ekf_update strict_numerics ?m [1, 1] ?f) = Some NumericalFailure"
    by simp
  from T [THEN conjunct2, THEN conjunct2, THEN conjunct2, THEN conjunct2, THEN conjunct1] c
  have "fst (ekf_update strict_numerics ?m [1, 1] ?f) = ?f \<and> ?c = None"
    by (rule mp)
  then have d: "fst (ekf_update strict_numerics ?m [1, 1] ?f) = ?f"
    by (rule conjunct1)
  have e: "snd (filter_operation (\<lambda>f. Some f) ?h) \<noteq> Some NumericalFailure"
    by (simp add: filter_operation_def)
  from T [THEN conjunct2, THEN conjunct2, THEN conjunct1] e
  have "snd (filter_operation (\<lambda>f. Some f) ?h) = None
        \<and> (\<lambda>f. Some f) ?h = Some (fst (filter_operation (\<lambda>f. Some f) ?h))"
    by (rule mp)
  then have g: "snd (filter_operation (\<lambda>f. Some f) ?h) = None"
    by (rule conjunct1)
  show ?thesis
    using a b c d e g by simp
qed

text \<open>
  Claim C9. Of the default-constructed initial covariance the driver writes the top-left
  3x3 block (the identity) and the bottom-right 3x3 block (pi/4 times the identity) only;
  the two off-diagonal blocks still hold what default construction left there when the
  matrix is used for the initial noise draw and handed to the four filters.
\<close>

theorem init_cov_off_diagonal_blocks_unwritten:
  "map (take 3) (take 3 (init_state_cov ex)) = Identity3
   \<and> map (drop 3) (drop 3 (init_state_cov ex)) = mscale Identity3 (pi / 4)
   \<and> map (drop 3) (take 3 (init_state_cov ex)) =
       map (\<lambda>i. map (\<lambda>j. default_cov ex ! i ! j) [3, 4, 5]) [0, 1, 2]
   \<and> map (take 3) (drop 3 (init_state_cov ex)) =
       map (\<lambda>i. map (\<lambda>j. default_cov ex ! i ! j) [0, 1, 2]) [3, 4, 5]
   \<and> fst (initialise ex g0) =
       [Randn0,
        Construct EKF None,
        SetState EKF
          (rplus ex (Identity ex)
             (matvec (cwiseSqrt ex (init_state_cov ex)) (fst (randn0 ex g0)))),
        SetCovariance EKF (init_state_cov ex),
        Construct SEKF
          (Some (rplus ex (Identity ex)
                   (matvec (cwiseSqrt ex (init_state_cov ex)) (fst (randn0 ex g0))),
                 init_state_cov ex)),
        Construct IEKF
          (Some (rplus ex (Identity ex)
                   (matvec (cwiseSqrt ex (init_state_cov ex)) (fst (randn0 ex g0))),
                 init_state_cov ex)),
        Construct UKFM
          (Some (rplus ex (Identity ex)
                   (matvec (cwiseSqrt ex (init_state_cov ex)) (fst (randn0 ex g0))),
                 init_state_cov ex))]"
proof -
  have a: "map (take 3) (take 3 (init_state_cov ex)) = Identity3"
    by (simp add: init_state_cov_explicit Identity3_explicit)
  have b: "map (drop 3) (drop 3 (init_state_cov ex)) = mscale Identity3 (pi / 4)"
    by (simp add: init_state_cov_explicit Identity3_explicit mscale_def vscale_def)
  have c: "map (drop 3) (take 3 (init_state_cov ex)) =
       map (\<lambda>i. map (\<lambda>j. default_cov ex ! i ! j) [3, 4, 5]) [0, 1, 2]"
    by (simp add: init_state_cov_explicit)
  have d: "map (take 3) (drop 3 (init_state_cov ex)) =
       map (\<lambda>i. map (\<lambda>j. default_cov ex ! i ! j) [0, 1, 2]) [3, 4, 5]"
    by (simp add: init_state_cov_explicit)
  show ?thesis
    by (intro conjI a b c d) (simp add: initialise_def Let_def split_def)
qed

text \<open>
  Claim C10. In every pass each of the four filters is propagated exactly once and no
  propagate call comes at or after the first update; landmark updates are made exactly
  when \<^verbatim>\<open>int(t*100)\<close> is divisible by 2 and GPS updates exactly when it is divisible by 10;
  a pass with a GPS update also updates every filter with each of the five landmarks; and
  all landmark updates precede the GPS updates.
\<close>

theorem pass_order_and_schedule:
  "map filter_of (filter is_propagate (fst (body ex st))) =
     [Some EKF, Some SEKF, Some IEKF, Some UKFM]
   \<and> filter is_propagate (dropWhile (\<lambda>c. \<not> is_update c) (fst (body ex st))) = []
   \<and> (filter is_landmark_update (fst (body ex st)) \<noteq> [] \<longleftrightarrow> 2 dvd pass_index st)
   \<and> (filter is_gps_update (fst (body ex st)) \<noteq> [] \<longleftrightarrow> 10 dvd pass_index st)
   \<and> (filter is_gps_update (fst (body ex st)) \<noteq> [] \<longrightarrow>
        map (\<lambda>c. (filter_of c, model_of c)) (filter is_landmark_update (fst (body ex st))) =
        concat (map (\<lambda>m. map (\<lambda>k. (Some k, Some m)) [EKF, SEKF, IEKF, UKFM])
                  measurement_models))
   \<and> filter is_update (fst (body ex st)) =
        filter is_landmark_update (fst (body ex st)) @ filter is_gps_update (fst (body ex st))
   \<and> pass_index st = to_int (dmul_int (t st) 100)"
proof -
  obtain y0 y1 y2 y3 y4 where ys: "fst (measured_of ex st) = [y0, y1, y2, y3, y4]"
    using measured_explicit by blast
  note facts = body_calls ys draws_explicit periods smod_zero_iff_dvd gps_calls
    propagate_all_def read_results_def measurement_models_def filter_replicate_if
    dropWhile_replicate_all
  have p1: "map filter_of (filter is_propagate (fst (body ex st))) =
     [Some EKF, Some SEKF, Some IEKF, Some UKFM]"
    by (simp add: facts)
  have p2: "filter is_propagate (dropWhile (\<lambda>c. \<not> is_update c) (fst (body ex st))) = []"
    by (simp add: facts)
  have p3: "filter is_landmark_update (fst (body ex st)) \<noteq> [] \<longleftrightarrow> 2 dvd pass_index st"
    by (simp add: facts)
  have p4: "filter is_gps_update (fst (body ex st)) \<noteq> [] \<longleftrightarrow> 10 dvd pass_index st"
    by (simp add: facts)
  have "10 dvd pass_index st \<Longrightarrow> 2 dvd pass_index st"
    by presburger
  then have p5: "filter is_gps_update (fst (body ex st)) \<noteq> [] \<longrightarrow>
        map (\<lambda>c. (filter_of c, model_of c)) (filter is_landmark_update (fst (body ex st))) =
        concat (map (\<lambda>m. map (\<lambda>k. (Some k, Some m)) [EKF, SEKF, IEKF, UKFM])
                  measurement_models)"
    unfolding p4 by (simp add: facts)
  have p6: "filter is_update (fst (body ex st)) =
        filter is_landmark_update (fst (body ex st)) @ filter is_gps_update (fst (body ex st))"
    by (simp add: facts)
  from p1 p2 p3 p4 p5 p6 show ?thesis by (simp add: pass_index_def)
qed

theorem pass_order_and_schedule_witness:
  "10 dvd pass_index (snd (initialise flat_extern 0))
   \<and> 2 dvd pass_index (snd (initialise flat_extern 0))
   \<and> filter is_gps_update (fst (body flat_extern (snd (initialise flat_extern 0)))) \<noteq> []
   \<and> filter is_landmark_update (fst (body flat_extern (snd (initialise flat_extern 0)))) \<noteq> []
   \<and> map (\<lambda>c. (filter_of c, model_of c))
        (filter is_landmark_update (fst (body flat_extern (snd (initialise flat_extern 0))))) =
      concat (map (\<lambda>m. map (\<lambda>k. (Some k, Some m)) [EKF, SEKF, IEKF, UKFM])
                measurement_models)"
  using pass_order_and_schedule [of flat_extern "snd (initialise flat_extern 0)"]
  by (simp add: pass_index_initial)

end
